theory Spec2Isabelle
  imports Main "HOL-Library.Char_ord" "HOL-Library.List_Lexorder" "HOL-Library.Multiset"
begin

section \<open>Tables (main.py, lines 38-82)\<close>

text \<open>
  The three mapped classes of \<^verbatim>\<open>main.py\<close>. Integer columns are Python integers
  (\<^typ>\<open>int\<close>), nullable foreign keys are options, string columns are lists of characters
  compared by code point, which is how the default database compares text. The column
  \<^verbatim>\<open>id\<close> is renamed per table, since \<^term>\<open>id\<close> is the identity of HOL.
\<close>

record user =
  user_id :: int
  username :: string
  email :: string
  password :: string

record blog_post =
  post_id :: int
  post_author_id :: "int option"
  title :: string
  subtitle :: string
  post_date :: string
  body :: string
  img_url :: string

record comment =
  comment_id :: int
  comment_post_id :: "int option"
  comment_author_id :: "int option"
  comment_text :: string
  comment_date :: string

section \<open>State of one client talking to the application\<close>

text \<open>
  Every call of \<^verbatim>\<open>db.session.add\<close>, \<^verbatim>\<open>db.session.delete\<close> and
  \<^verbatim>\<open>db.session.commit\<close> that takes effect is recorded in the journal, in the order the
  handlers issue them. An attribute update of a loaded row is journalled as \<open>Update_post\<close>.
\<close>

datatype db_event =
    Add_user int
  | Add_post int
  | Add_comment int
  | Update_post int
  | Delete_post int
  | Delete_comment int
  | Commit

record state =
  users :: "user list"
  blog_posts :: "blog_post list"
  comments :: "comment list"
  journal :: "db_event list"
  session_user_id :: "int option"
  flashes :: "string list"

section \<open>Errors and responses\<close>

text \<open>
  \<open>HTTPException n\<close> is what \<^verbatim>\<open>abort(n)\<close> raises; the framework answers it with status
  \<open>n\<close>. The other three are exceptions no handler catches: reading an attribute of
  \<^verbatim>\<open>None\<close>, handing \<^verbatim>\<open>None\<close> to \<^verbatim>\<open>db.session.delete\<close>, and a commit
  that breaks a \<^verbatim>\<open>unique=True\<close> column.
\<close>

datatype error =
    HTTPException nat
  | AttributeError
  | UnmappedInstanceError
  | IntegrityError

fun unhandled_fault :: "error \<Rightarrow> bool" where
  "unhandled_fault (HTTPException n) = False"
| "unhandled_fault AttributeError = True"
| "unhandled_fault UnmappedInstanceError = True"
| "unhandled_fault IntegrityError = True"

text \<open>\<^verbatim>\<open>url_for(endpoint, **values)\<close>: the endpoint's name and its integer arguments.\<close>

datatype url = Url_for string "(string \<times> int) list"

record pagination =
  items :: "blog_post list"
  page :: int
  per_page :: int
  total :: nat

text \<open>The keyword arguments of \<^verbatim>\<open>render_template\<close>.\<close>

datatype template_value =
    All_posts pagination
  | Form "(string \<times> string) list"
  | Post "blog_post option"
  | Current_user "user option"

datatype response =
    Render string "(string \<times> template_value) list"
  | Redirect url

type_synonym result = "(error + response) \<times> state"

section \<open>Queries\<close>

text \<open>
  \<^verbatim>\<open>Model.query.get(i)\<close> and \<^verbatim>\<open>filter_by(...).first()\<close> return the first matching
  row or \<^verbatim>\<open>None\<close>; \<^verbatim>\<open>filter_by(...).all()\<close> is \<^const>\<open>filter\<close>. Rows are kept in
  the order of their insertion.
\<close>

definition query_get :: "('a \<Rightarrow> int) \<Rightarrow> 'a list \<Rightarrow> int \<Rightarrow> 'a option" where
  "query_get key rows i = find (\<lambda>r. key r = i) rows"

definition filter_by_email :: "user list \<Rightarrow> string \<Rightarrow> user option" where
  "filter_by_email rows e = find (\<lambda>u. email u = e) rows"

definition filter_by_post_id :: "comment list \<Rightarrow> int \<Rightarrow> comment list" where
  "filter_by_post_id rows i = filter (\<lambda>c. comment_post_id c = Some i) rows"

text \<open>
  \<^verbatim>\<open>order_by(column.desc())\<close> on a string column: greatest string first. Rows with equal
  strings keep their insertion order.
\<close>

fun insert_desc :: "('a \<Rightarrow> string) \<Rightarrow> 'a \<Rightarrow> 'a list \<Rightarrow> 'a list" where
  "insert_desc key x [] = [x]"
| "insert_desc key x (y # ys) =
     (if key y \<le> key x then x # y # ys else y # insert_desc key x ys)"

fun order_by_desc :: "('a \<Rightarrow> string) \<Rightarrow> 'a list \<Rightarrow> 'a list" where
  "order_by_desc key [] = []"
| "order_by_desc key (x # xs) = insert_desc key x (order_by_desc key xs)"

text \<open>An integer primary key left to the database: one more than the greatest in use.\<close>

definition next_id :: "int list \<Rightarrow> int" where
  "next_id ids = (case ids of [] \<Rightarrow> 1 | i # js \<Rightarrow> fold max js i + 1)"

section \<open>Session operations\<close>

definition commit :: "state \<Rightarrow> state" where
  "commit st = st\<lparr>journal := journal st @ [Commit]\<rparr>"

definition session_delete_comment :: "comment \<Rightarrow> state \<Rightarrow> state" where
  "session_delete_comment c st =
     st\<lparr>comments := filter (\<lambda>d. comment_id d \<noteq> comment_id c) (comments st),
        journal := journal st @ [Delete_comment (comment_id c)]\<rparr>"

definition session_delete_post :: "blog_post \<Rightarrow> state \<Rightarrow> state" where
  "session_delete_post p st =
     st\<lparr>blog_posts := filter (\<lambda>q. post_id q \<noteq> post_id p) (blog_posts st),
        journal := journal st @ [Delete_post (post_id p)]\<rparr>"

definition flash :: "string \<Rightarrow> state \<Rightarrow> state" where
  "flash msg st = st\<lparr>flashes := flashes st @ [msg]\<rparr>"

section \<open>Login state (main.py, lines 85-101)\<close>

definition load_user :: "state \<Rightarrow> int \<Rightarrow> user option" where
  "load_user st uid = query_get user_id (users st) uid"

text \<open>
  \<^verbatim>\<open>current_user\<close>: the row that \<^verbatim>\<open>load_user\<close> finds for the id kept in the session;
  \<open>None\<close> stands for the anonymous user, whose \<^verbatim>\<open>is_authenticated\<close> is false.
\<close>

definition current_user :: "state \<Rightarrow> user option" where
  "current_user st = (case session_user_id st of None \<Rightarrow> None | Some uid \<Rightarrow> load_user st uid)"

definition is_authenticated :: "state \<Rightarrow> bool" where
  "is_authenticated st = (current_user st \<noteq> None)"

definition login_user :: "user \<Rightarrow> state \<Rightarrow> state" where
  "login_user u st = st\<lparr>session_user_id := Some (user_id u)\<rparr>"

definition abort :: "nat \<Rightarrow> state \<Rightarrow> result" where
  "abort n st = (Inl (HTTPException n), st)"

definition admin_only :: "(state \<Rightarrow> result) \<Rightarrow> state \<Rightarrow> result" where
  "admin_only f st =
     (case current_user st of
        None \<Rightarrow> abort 403 st
      | Some u \<Rightarrow> if user_id u \<noteq> 1 then abort 403 st else f st)"

text \<open>
  \<^verbatim>\<open>login_required\<close> of the login library: no login view is configured in
  \<^verbatim>\<open>main.py\<close>, so an anonymous request is answered with \<^verbatim>\<open>abort(401)\<close>.
\<close>

definition login_required :: "(state \<Rightarrow> result) \<Rightarrow> state \<Rightarrow> result" where
  "login_required f st = (if is_authenticated st then f st else abort 401 st)"

section \<open>Requests and the environment\<close>

datatype http_method = GET | POST

text \<open>
  \<open>form\<close> is \<^verbatim>\<open>request.form\<close>. \<open>page_arg\<close> is
  \<^verbatim>\<open>request.args.get("page", type=int)\<close> before the default is applied: \<open>None\<close> when the
  parameter is absent or is no integer.
\<close>

record request =
  request_method :: http_method
  form :: "string \<Rightarrow> string option"
  page_arg :: "int option"

record datetime =
  year :: nat
  month :: nat
  day :: nat
  hour :: nat
  minute :: nat

text \<open>
  What a handler takes from outside the repository: the clock, the salted password hash,
  the \<^verbatim>\<open>URL()\<close> validator of the forms library, and that library's check of a
  submitted CSRF token (its signature under the application's secret key, its age, and
  its equality with the token kept in the client's session cookie).
\<close>

record environment =
  now :: datetime
  generate_password_hash :: "string \<Rightarrow> string"
  url_validator :: "string \<Rightarrow> bool"
  validate_csrf :: "string \<Rightarrow> bool"

subsection \<open>\<^verbatim>\<open>strftime("%H:%M%p %d %B, %Y")\<close>\<close>

definition digit :: "nat \<Rightarrow> char" where
  "digit n = char_of (48 + n mod 10)"

definition two_digits :: "nat \<Rightarrow> string" where
  "two_digits n = [digit (n div 10), digit n]"

text \<open>Years from 1000 to 9999, which is where a running clock is.\<close>

definition four_digits :: "nat \<Rightarrow> string" where
  "four_digits n = [digit (n div 1000), digit (n div 100), digit (n div 10), digit n]"

definition month_name :: "nat \<Rightarrow> string" where
  "month_name m =
     (if m = 1 then ''January'' else if m = 2 then ''February''
      else if m = 3 then ''March'' else if m = 4 then ''April''
      else if m = 5 then ''May'' else if m = 6 then ''June''
      else if m = 7 then ''July'' else if m = 8 then ''August''
      else if m = 9 then ''September'' else if m = 10 then ''October''
      else if m = 11 then ''November'' else ''December'')"

definition strftime :: "datetime \<Rightarrow> string" where
  "strftime t =
     two_digits (hour t) @ '':'' @ two_digits (minute t)
     @ (if hour t < 12 then ''AM'' else ''PM'')
     @ '' '' @ two_digits (day t) @ '' '' @ month_name (month t)
     @ '', '' @ four_digits (year t)"

text \<open>The order of the calendar: \<open>earlier s t\<close> when \<open>s\<close> is a moment before \<open>t\<close>.\<close>

definition minutes_of :: "datetime \<Rightarrow> nat" where
  "minutes_of t = (((year t * 12 + month t) * 31 + day t) * 24 + hour t) * 60 + minute t"

definition earlier :: "datetime \<Rightarrow> datetime \<Rightarrow> bool" where
  "earlier s t = (minutes_of s < minutes_of t)"

section \<open>Forms (forms.py)\<close>

text \<open>
  \<^verbatim>\<open>DataRequired()\<close> of the forms library accepts a string that is true in Python's sense
  and is not made of whitespace only. Characters are code points below 256.
\<close>

definition isspace :: "char \<Rightarrow> bool" where
  "isspace c =
     (let n = (of_char c :: nat)
      in (9 \<le> n \<and> n \<le> 13) \<or> (28 \<le> n \<and> n \<le> 32) \<or> n = 133 \<or> n = 160)"

definition strip :: "string \<Rightarrow> string" where
  "strip s = rev (dropWhile isspace (rev (dropWhile isspace s)))"

definition DataRequired :: "string \<Rightarrow> bool" where
  "DataRequired s = (s \<noteq> [] \<and> strip s \<noteq> [])"

definition is_submitted :: "request \<Rightarrow> bool" where
  "is_submitted req = (request_method req = POST)"

text \<open>
  Every form of \<^verbatim>\<open>forms.py\<close> derives from \<^verbatim>\<open>FlaskForm\<close>, which adds the field
  \<^verbatim>\<open>csrf_token\<close>; \<^verbatim>\<open>main.py\<close> never switches the check off. A submission with
  no token, or an empty one, is refused before the token is examined.
\<close>

definition csrf_ok :: "environment \<Rightarrow> request \<Rightarrow> bool" where
  "csrf_ok env req =
     (case form req ''csrf_token'' of
        None \<Rightarrow> False
      | Some t \<Rightarrow> t \<noteq> [] \<and> validate_csrf env t)"

text \<open>
  \<^verbatim>\<open>validate_on_submit()\<close>: the request is a submission, its token is good, and the
  validators of the form's own fields (the last argument) all pass.
\<close>

definition validate_on_submit :: "environment \<Rightarrow> request \<Rightarrow> bool \<Rightarrow> bool" where
  "validate_on_submit env req fields_valid =
     (is_submitted req \<and> csrf_ok env req \<and> fields_valid)"

text \<open>
  The data of a field: the submitted value when the request is a submission that has
  the field, the default otherwise (the keyword argument of the form's constructor, or
  nothing).
\<close>

definition field_data :: "request \<Rightarrow> string \<Rightarrow> string \<Rightarrow> string" where
  "field_data req name dflt =
     (if is_submitted req
      then (case form req name of Some v \<Rightarrow> v | None \<Rightarrow> dflt)
      else dflt)"

type_synonym form_data = "(string \<times> string) list"

definition data_of :: "form_data \<Rightarrow> string \<Rightarrow> string" where
  "data_of f name = (case map_of f name of Some v \<Rightarrow> v | None \<Rightarrow> [])"

definition CreatePostForm ::
    "request \<Rightarrow> string \<Rightarrow> string \<Rightarrow> string \<Rightarrow> string \<Rightarrow> form_data" where
  "CreatePostForm req t s i b =
     [(''title'', field_data req ''title'' t),
      (''subtitle'', field_data req ''subtitle'' s),
      (''img_url'', field_data req ''img_url'' i),
      (''body'', field_data req ''body'' b)]"

definition RegisterUserForm :: "request \<Rightarrow> form_data" where
  "RegisterUserForm req =
     [(''username'', field_data req ''username'' []),
      (''email'', field_data req ''email'' []),
      (''password'', field_data req ''password'' [])]"

definition CommentForm :: "request \<Rightarrow> form_data" where
  "CommentForm req = [(''comment_field'', field_data req ''comment_field'' [])]"

definition validate_create_post :: "environment \<Rightarrow> form_data \<Rightarrow> bool" where
  "validate_create_post env f =
     (DataRequired (data_of f ''title'') \<and> DataRequired (data_of f ''subtitle'')
      \<and> (DataRequired (data_of f ''img_url'') \<and> url_validator env (data_of f ''img_url''))
      \<and> DataRequired (data_of f ''body''))"

definition validate_register :: "form_data \<Rightarrow> bool" where
  "validate_register f =
     (DataRequired (data_of f ''username'') \<and> DataRequired (data_of f ''email'')
      \<and> DataRequired (data_of f ''password''))"

definition validate_comment :: "form_data \<Rightarrow> bool" where
  "validate_comment f = DataRequired (data_of f ''comment_field'')"

section \<open>Inserting and updating rows\<close>

definition session_add_user :: "user \<Rightarrow> state \<Rightarrow> state" where
  "session_add_user u st =
     st\<lparr>users := users st @ [u], journal := journal st @ [Add_user (user_id u)]\<rparr>"

definition session_add_post :: "blog_post \<Rightarrow> state \<Rightarrow> state" where
  "session_add_post p st =
     st\<lparr>blog_posts := blog_posts st @ [p], journal := journal st @ [Add_post (post_id p)]\<rparr>"

definition session_add_comment :: "comment \<Rightarrow> state \<Rightarrow> state" where
  "session_add_comment c st =
     st\<lparr>comments := comments st @ [c], journal := journal st @ [Add_comment (comment_id c)]\<rparr>"

definition session_update_post :: "blog_post \<Rightarrow> state \<Rightarrow> state" where
  "session_update_post p st =
     st\<lparr>blog_posts := map (\<lambda>q. if post_id q = post_id p then p else q) (blog_posts st),
        journal := journal st @ [Update_post (post_id p)]\<rparr>"

section \<open>Handlers (main.py, lines 104-314)\<close>

subsection \<open>\<^verbatim>\<open>get_all_posts\<close>\<close>

text \<open>
  \<^verbatim>\<open>paginate(page, per_page)\<close> of the database library: a page below 1, and an empty page
  other than the first, are answered with \<^verbatim>\<open>abort(404)\<close>.
\<close>

definition paginate :: "blog_post list \<Rightarrow> int \<Rightarrow> int \<Rightarrow> error + pagination" where
  "paginate rows pg pp =
     (if pg < 1 then Inl (HTTPException 404)
      else
        let its = take (nat pp) (drop (nat ((pg - 1) * pp)) rows)
        in if its = [] \<and> pg \<noteq> 1 then Inl (HTTPException 404)
           else Inr \<lparr>items = its, page = pg, per_page = pp, total = length rows\<rparr>)"

definition get_all_posts :: "request \<Rightarrow> state \<Rightarrow> result" where
  "get_all_posts req st =
     (let pg = (case page_arg req of None \<Rightarrow> 1 | Some n \<Rightarrow> n)
      in case paginate (order_by_desc post_date (blog_posts st)) pg 5 of
           Inl e \<Rightarrow> (Inl e, st)
         | Inr posts \<Rightarrow> (Inr (Render ''index.html'' [(''all_posts'', All_posts posts)]), st))"

subsection \<open>\<^verbatim>\<open>register\<close>\<close>

text \<open>
  \<^verbatim>\<open>request.form[key]\<close> raises a bad-request error (status 400) for a missing key.
\<close>

definition register :: "environment \<Rightarrow> request \<Rightarrow> state \<Rightarrow> result" where
  "register env req st =
     (let register_form = RegisterUserForm req
      in if validate_on_submit env req (validate_register register_form) then
           (case form req ''password'' of
              None \<Rightarrow> abort 400 st
            | Some pw \<Rightarrow>
                let hash_and_salted_password = generate_password_hash env pw
                in (case form req ''username'' of
                      None \<Rightarrow> abort 400 st
                    | Some un \<Rightarrow>
                        (case form req ''email'' of
                           None \<Rightarrow> abort 400 st
                         | Some em \<Rightarrow>
                             (case filter_by_email (users st) em of
                                Some existing_user \<Rightarrow>
                                  (Inr (Redirect (Url_for ''login'' [])),
                                   flash ''E-mail address already signed up, login instead'' st)
                              | None \<Rightarrow>
                                  let new_user =
                                        \<lparr>user_id = next_id (map user_id (users st)),
                                         username = un, email = em,
                                         password = hash_and_salted_password\<rparr>
                                  in (Inr (Redirect (Url_for ''get_all_posts'' [])),
                                      login_user new_user
                                        (commit (session_add_user new_user st)))))))
         else (Inr (Render ''register.html'' [(''form'', Form register_form)]), st))"

subsection \<open>\<^verbatim>\<open>show_post\<close>\<close>

text \<open>
  Line 185: the requested post. Line 187: the comments the handler loads. The template
  is not given the loaded comments, so the response does not show them; what the two
  queries returned is kept beside the response, as the values of the handler's
  variables \<^verbatim>\<open>requested_post\<close> and \<^verbatim>\<open>comments\<close> when it returns.
\<close>

record loads =
  post_row :: "blog_post option"
  comment_rows :: "comment list"

definition requested_post :: "state \<Rightarrow> int \<Rightarrow> blog_post option" where
  "requested_post st pid = query_get post_id (blog_posts st) pid"

definition loaded_comments :: "state \<Rightarrow> comment list" where
  "loaded_comments st = order_by_desc comment_date (comments st)"

definition post_page ::
    "blog_post option \<Rightarrow> form_data \<Rightarrow> user option \<Rightarrow> response" where
  "post_page p f u =
     Render ''post.html'' [(''post'', Post p), (''form'', Form f), (''current_user'', Current_user u)]"

definition show_post_run ::
    "environment \<Rightarrow> request \<Rightarrow> int \<Rightarrow> state \<Rightarrow> result \<times> loads" where
  "show_post_run env req pid st =
     (let post = requested_post st pid;
          cs = loaded_comments st;
          comment_form = CommentForm req;
          loaded = \<lparr>post_row = post, comment_rows = cs\<rparr>
      in if validate_on_submit env req (validate_comment comment_form) then
           (case current_user st of
              None \<Rightarrow>
                ((Inr (Redirect (Url_for ''login'' [])),
                  flash ''Please login or register to post comments.'' st), loaded)
            | Some u \<Rightarrow>
                let new_comment =
                      \<lparr>comment_id = next_id (map comment_id (comments st)),
                       comment_post_id = map_option post_id post,
                       comment_author_id = Some (user_id u),
                       comment_text = data_of comment_form ''comment_field'',
                       comment_date = strftime (now env)\<rparr>
                in ((Inr (post_page post [(''comment_field'', [])] (Some u)),
                     commit (session_add_comment new_comment st)), loaded))
         else ((Inr (post_page post comment_form (current_user st)), st), loaded))"

text \<open>The handler as the framework sees it: the response and the state.\<close>

definition show_post :: "environment \<Rightarrow> request \<Rightarrow> int \<Rightarrow> state \<Rightarrow> result" where
  "show_post env req pid st = fst (show_post_run env req pid st)"

subsection \<open>\<^verbatim>\<open>add_new_post\<close>\<close>

text \<open>
  The title column is \<^verbatim>\<open>unique=True\<close>: a commit that would store a second post with a
  title already there fails and leaves the tables as they were. An anonymous user is
  no mapped row and cannot be the author of a post.
\<close>

definition add_new_post_body :: "environment \<Rightarrow> request \<Rightarrow> state \<Rightarrow> result" where
  "add_new_post_body env req st =
     (let create_post_form = CreatePostForm req [] [] [] []
      in if validate_on_submit env req (validate_create_post env create_post_form) then
           (case current_user st of
              None \<Rightarrow> (Inl AttributeError, st)
            | Some u \<Rightarrow>
                let new_post =
                      \<lparr>post_id = next_id (map post_id (blog_posts st)),
                       post_author_id = Some (user_id u),
                       title = data_of create_post_form ''title'',
                       subtitle = data_of create_post_form ''subtitle'',
                       post_date = strftime (now env),
                       body = data_of create_post_form ''body'',
                       img_url = data_of create_post_form ''img_url''\<rparr>
                in if title new_post \<in> set (map title (blog_posts st))
                   then (Inl IntegrityError, st)
                   else (Inr (Redirect (Url_for ''get_all_posts'' [])),
                         commit (session_add_post new_post st)))
         else (Inr (Render ''make-post.html''
                      [(''form'', Form create_post_form),
                       (''current_user'', Current_user (current_user st))]), st))"

definition add_new_post :: "environment \<Rightarrow> request \<Rightarrow> state \<Rightarrow> result" where
  "add_new_post env req = admin_only (add_new_post_body env req)"

subsection \<open>\<^verbatim>\<open>edit_post\<close>\<close>

definition edit_post_body :: "environment \<Rightarrow> request \<Rightarrow> int \<Rightarrow> state \<Rightarrow> result" where
  "edit_post_body env req pid st =
     (case query_get post_id (blog_posts st) pid of
        None \<Rightarrow> (Inl AttributeError, st)
      | Some post \<Rightarrow>
          let edit_form =
                CreatePostForm req (title post) (subtitle post) (img_url post) (body post)
          in if validate_on_submit env req (validate_create_post env edit_form) then
               let post' = post\<lparr>title := data_of edit_form ''title'',
                                subtitle := data_of edit_form ''subtitle'',
                                img_url := data_of edit_form ''img_url'',
                                body := data_of edit_form ''body''\<rparr>
               in if title post' \<in> set (map title
                        (filter (\<lambda>q. post_id q \<noteq> post_id post) (blog_posts st)))
                  then (Inl IntegrityError, st)
                  else (Inr (Redirect (Url_for ''show_post'' [(''post_id'', post_id post)])),
                        commit (session_update_post post' st))
             else (Inr (Render ''make-post.html'' [(''form'', Form edit_form)]), st))"

definition edit_post :: "environment \<Rightarrow> request \<Rightarrow> int \<Rightarrow> state \<Rightarrow> result" where
  "edit_post env req pid = admin_only (edit_post_body env req pid)"

subsection \<open>\<^verbatim>\<open>delete_all_comments\<close>\<close>

text \<open>The loop of lines 310-312: one delete and one commit for each comment.\<close>

fun delete_each :: "comment list \<Rightarrow> state \<Rightarrow> state" where
  "delete_each [] st = st"
| "delete_each (c # cs) st = delete_each cs (commit (session_delete_comment c st))"

definition delete_all_comments_body :: "int \<Rightarrow> state \<Rightarrow> result" where
  "delete_all_comments_body pid st =
     (let comments_to_delete = filter_by_post_id (comments st) pid
      in (Inr (Redirect (Url_for ''get_all_posts'' [(''post'', pid)])),
          delete_each comments_to_delete st))"

definition delete_all_comments :: "int \<Rightarrow> state \<Rightarrow> result" where
  "delete_all_comments pid = admin_only (delete_all_comments_body pid)"

subsection \<open>\<^verbatim>\<open>delete_post\<close>\<close>

text \<open>
  Line 279 calls the decorated \<^verbatim>\<open>delete_all_comments\<close> and drops its response; an
  exception it raises ends the handler.
\<close>

definition delete_post_body :: "int \<Rightarrow> state \<Rightarrow> result" where
  "delete_post_body pid st =
     (case delete_all_comments pid st of
        (Inl e, st1) \<Rightarrow> (Inl e, st1)
      | (Inr r, st1) \<Rightarrow>
          (case query_get post_id (blog_posts st1) pid of
             None \<Rightarrow> (Inl UnmappedInstanceError, st1)
           | Some post_to_delete \<Rightarrow>
               (Inr (Redirect (Url_for ''get_all_posts'' [])),
                commit (session_delete_post post_to_delete st1))))"

definition delete_post :: "int \<Rightarrow> state \<Rightarrow> result" where
  "delete_post pid = admin_only (delete_post_body pid)"

subsection \<open>\<^verbatim>\<open>delete_comment\<close>\<close>

definition delete_comment_body :: "int \<Rightarrow> int \<Rightarrow> state \<Rightarrow> result" where
  "delete_comment_body pid cid st =
     (case query_get comment_id (comments st) cid of
        None \<Rightarrow> (Inl UnmappedInstanceError, st)
      | Some comment_to_delete \<Rightarrow>
          (Inr (Redirect (Url_for ''show_post'' [(''post_id'', pid)])),
           commit (session_delete_comment comment_to_delete st)))"

definition delete_comment :: "int \<Rightarrow> int \<Rightarrow> state \<Rightarrow> result" where
  "delete_comment pid cid = login_required (delete_comment_body pid cid)"

section \<open>Vocabulary of the specification\<close>

text \<open>The session's user is authenticated and is the administrator, the user with id 1.\<close>

definition session_admin :: "state \<Rightarrow> bool" where
  "session_admin st = (is_authenticated st \<and> map_option user_id (current_user st) = Some 1)"

text \<open>The \<^verbatim>\<open>primary_key=True\<close> columns: no two rows of a table share an id.\<close>

definition primary_keys :: "state \<Rightarrow> bool" where
  "primary_keys st =
     (distinct (map user_id (users st)) \<and> distinct (map post_id (blog_posts st))
      \<and> distinct (map comment_id (comments st)))"

text \<open>The ids of the posts on the page a response lists.\<close>

fun listed_ids :: "result \<Rightarrow> int list" where
  "listed_ids (Inr (Render t [(k, All_posts p)]), st) = map post_id (items p)"
| "listed_ids r = []"

section \<open>A small blog\<close>

text \<open>
  Three users (the first is the administrator), two posts, three comments: Bob's and
  Carol's on the first post, Carol's on the second. \<open>blog s\<close> is that blog seen by a
  client whose session holds \<open>s\<close>.
\<close>

definition simon :: user where
  "simon = \<lparr>user_id = 1, username = ''simon'', email = ''simon@example.com'', password = ''h1''\<rparr>"

definition bob :: user where
  "bob = \<lparr>user_id = 2, username = ''bob'', email = ''bob@example.com'', password = ''h2''\<rparr>"

definition carol :: user where
  "carol = \<lparr>user_id = 3, username = ''carol'', email = ''carol@example.com'', password = ''h3''\<rparr>"

definition first_post :: blog_post where
  "first_post =
     \<lparr>post_id = 1, post_author_id = Some 1, title = ''First'', subtitle = ''one'',
      post_date = ''10:00AM 01 January, 2021'', body = ''b1'', img_url = ''http://x.org/1.png''\<rparr>"

definition second_post :: blog_post where
  "second_post =
     \<lparr>post_id = 2, post_author_id = Some 1, title = ''Second'', subtitle = ''two'',
      post_date = ''09:30AM 02 January, 2021'', body = ''b2'', img_url = ''http://x.org/2.png''\<rparr>"

definition bob_on_first :: comment where
  "bob_on_first =
     \<lparr>comment_id = 1, comment_post_id = Some 1, comment_author_id = Some 2,
      comment_text = ''nice'', comment_date = ''11:00AM 01 January, 2021''\<rparr>"

definition carol_on_second :: comment where
  "carol_on_second =
     \<lparr>comment_id = 2, comment_post_id = Some 2, comment_author_id = Some 3,
      comment_text = ''hm'', comment_date = ''12:00PM 02 January, 2021''\<rparr>"

definition carol_on_first :: comment where
  "carol_on_first =
     \<lparr>comment_id = 3, comment_post_id = Some 1, comment_author_id = Some 3,
      comment_text = ''ok'', comment_date = ''08:00AM 03 January, 2021''\<rparr>"

definition blog :: "int option \<Rightarrow> state" where
  "blog s =
     \<lparr>users = [simon, bob, carol], blog_posts = [first_post, second_post],
      comments = [bob_on_first, carol_on_second, carol_on_first],
      journal = [], session_user_id = s, flashes = []\<rparr>"

definition clock :: "datetime \<Rightarrow> environment" where
  "clock t =
     \<lparr>now = t, generate_password_hash = (\<lambda>pw. ''pbkdf2:sha256$'' @ pw),
      url_validator = (\<lambda>u. take 7 u = ''http://''),
      validate_csrf = (\<lambda>t. t = ''token'')\<rparr>"

definition noon :: datetime where
  "noon = \<lparr>year = 2021, month = 1, day = 4, hour = 12, minute = 0\<rparr>"

definition get_request :: request where
  "get_request = \<lparr>request_method = GET, form = Map.empty, page_arg = None\<rparr>"

definition post_request :: "(string \<times> string) list \<Rightarrow> request" where
  "post_request kvs = \<lparr>request_method = POST, form = map_of kvs, page_arg = None\<rparr>"

definition page_request :: "int \<Rightarrow> request" where
  "page_request n = \<lparr>request_method = GET, form = Map.empty, page_arg = Some n\<rparr>"

subsection \<open>Twelve posts, one a day\<close>

text \<open>
  The administrator alone, with twelve posts published on the first twelve days of
  January 2021, each day an hour earlier in the day than the day before: 22:00 on the
  1st, 21:00 on the 2nd, ..., 11:00 on the 12th. Each post carries the date that
  \<^verbatim>\<open>add_new_post\<close> stores when the clock shows that moment.
\<close>

definition nth_day :: "nat \<Rightarrow> datetime" where
  "nth_day k = \<lparr>year = 2021, month = 1, day = k, hour = 23 - k, minute = 0\<rparr>"

definition day_post :: "nat \<Rightarrow> blog_post" where
  "day_post k =
     \<lparr>post_id = int k, post_author_id = Some 1, title = ''Day '' @ two_digits k,
      subtitle = ''s'', post_date = strftime (nth_day k), body = ''text'',
      img_url = ''http://x.org/i.png''\<rparr>"

definition twelve_days :: "nat list" where
  "twelve_days = [1, 2, 3, 4, 5, 6, 7, 8, 9, 10, 11, 12]"

definition twelve_posts :: state where
  "twelve_posts =
     \<lparr>users = [simon], blog_posts = map day_post twelve_days, comments = [], journal = [],
      session_user_id = Some 1, flashes = []\<rparr>"

subsection \<open>Requests used below\<close>





definition empty_comment :: request where
  "empty_comment = post_request [(''csrf_token'', ''token''), (''comment_field'', [])]"

definition hello_comment :: request where
  "hello_comment = post_request [(''csrf_token'', ''token''), (''comment_field'', ''hello'')]"

subsection \<open>When the three comments were written\<close>

text \<open>
  \<open>january d h\<close> is \<open>h\<close> o'clock on the \<open>d\<close>th of January 2021. Bob's comment on the
  first post was written at 11 on the 1st, Carol's on the second post at 12 on the
  2nd, Carol's on the first post at 8 on the 3rd.
\<close>

definition january :: "nat \<Rightarrow> nat \<Rightarrow> datetime" where
  "january d h = \<lparr>year = 2021, month = 1, day = d, hour = h, minute = 0\<rparr>"

section \<open>Lookups and the deletion loop\<close>

lemma admin_only_eq:
  "admin_only f st = (if session_admin st then f st else (Inl (HTTPException 403), st))"
  by (auto simp: admin_only_def session_admin_def is_authenticated_def abort_def
      split: option.splits)

lemma query_get_Some: "query_get key rows i = Some r \<Longrightarrow> r \<in> set rows \<and> key r = i"
  by (auto simp: query_get_def find_Some_iff)

lemma query_get_None: "query_get key rows i = None \<longleftrightarrow> (\<forall>r\<in>set rows. key r \<noteq> i)"
  by (auto simp: query_get_def find_None_iff)

lemma delete_each_comments:
  "comments (delete_each cs st) =
     filter (\<lambda>d. comment_id d \<notin> comment_id ` set cs) (comments st)"
  by (induction cs arbitrary: st)
     (auto simp: commit_def session_delete_comment_def intro: filter_cong)

lemma delete_each_journal:
  "journal (delete_each cs st) =
     journal st @ concat (map (\<lambda>c. [Delete_comment (comment_id c), Commit]) cs)"
  by (induction cs arbitrary: st) (simp_all add: commit_def session_delete_comment_def)

lemma delete_each_rest:
  "users (delete_each cs st) = users st \<and> blog_posts (delete_each cs st) = blog_posts st
   \<and> session_user_id (delete_each cs st) = session_user_id st
   \<and> flashes (delete_each cs st) = flashes st"
  by (induction cs arbitrary: st) (simp_all add: commit_def session_delete_comment_def)

lemma current_user_delete_each: "current_user (delete_each cs st) = current_user st"
  by (simp add: current_user_def load_user_def delete_each_rest split: option.splits)

lemma delete_each_eq:
  "delete_each cs st =
     st\<lparr>comments := filter (\<lambda>d. comment_id d \<notin> comment_id ` set cs) (comments st),
        journal := journal st
          @ concat (map (\<lambda>c. [Delete_comment (comment_id c), Commit]) cs)\<rparr>"
  by (rule state.equality)
     (simp_all add: delete_each_comments delete_each_journal delete_each_rest)

text \<open>With ids that are keys, deleting a post's comments by id leaves the other posts' comments.\<close>

lemma filter_other_posts:
  assumes "distinct (map comment_id cs)"
  shows "filter (\<lambda>d. comment_id d \<notin> comment_id ` set (filter_by_post_id cs pid)) cs
         = filter (\<lambda>d. comment_post_id d \<noteq> Some pid) cs"
proof (rule filter_cong[OF refl])
  fix d assume d: "d \<in> set cs"
  from assms have inj: "inj_on comment_id (set cs)" by (simp add: distinct_map)
  show "(comment_id d \<notin> comment_id ` set (filter_by_post_id cs pid))
        = (comment_post_id d \<noteq> Some pid)"
  proof
    assume "comment_id d \<notin> comment_id ` set (filter_by_post_id cs pid)"
    with d show "comment_post_id d \<noteq> Some pid" by (auto simp: filter_by_post_id_def)
  next
    assume n: "comment_post_id d \<noteq> Some pid"
    show "comment_id d \<notin> comment_id ` set (filter_by_post_id cs pid)"
    proof
      assume "comment_id d \<in> comment_id ` set (filter_by_post_id cs pid)"
      then obtain c where c: "c \<in> set cs" "comment_post_id c = Some pid"
          "comment_id c = comment_id d"
        by (auto simp: filter_by_post_id_def)
      with inj d have "c = d" by (auto dest: inj_onD)
      with c n show False by simp
    qed
  qed
qed

section \<open>The small blog, evaluated\<close>

lemmas blog_defs = blog_def simon_def bob_def carol_def first_post_def second_post_def
  bob_on_first_def carol_on_second_def carol_on_first_def

lemma session_admin_blog: "session_admin (blog s) = (s = Some 1)"
  by (cases s) (auto simp: session_admin_def is_authenticated_def current_user_def load_user_def
      query_get_def blog_defs)

lemma is_authenticated_blog: "is_authenticated (blog s) = (s \<in> {Some 1, Some 2, Some 3})"
  by (cases s) (auto simp: is_authenticated_def current_user_def load_user_def
      query_get_def blog_defs)

lemma primary_keys_blog: "primary_keys (blog s)"
  by (simp add: primary_keys_def blog_defs)

section \<open>The administrator's handlers\<close>

lemma add_new_post_body_not_403: "fst (add_new_post_body env req st) \<noteq> Inl (HTTPException 403)"
  by (simp add: add_new_post_body_def Let_def split: option.splits)

lemma edit_post_body_not_403: "fst (edit_post_body env req pid st) \<noteq> Inl (HTTPException 403)"
  by (simp add: edit_post_body_def Let_def split: option.splits)

lemma delete_all_comments_body_not_403:
  "fst (delete_all_comments_body pid st) \<noteq> Inl (HTTPException 403)"
  by (simp add: delete_all_comments_body_def Let_def)

lemma delete_all_comments_admin:
  "session_admin st \<Longrightarrow> delete_all_comments pid st =
      (Inr (Redirect (Url_for ''get_all_posts'' [(''post'', pid)])),
       delete_each (filter_by_post_id (comments st) pid) st)"
  by (simp add: delete_all_comments_def admin_only_eq delete_all_comments_body_def)

lemma delete_post_body_not_403:
  "session_admin st \<Longrightarrow> fst (delete_post_body pid st) \<noteq> Inl (HTTPException 403)"
  by (simp add: delete_post_body_def delete_all_comments_admin split: option.splits)

text \<open>
  Claim C1. Each of the four handlers behind \<^verbatim>\<open>admin_only\<close> (new-post, edit-post,
  delete-post, delete-comments) runs its body exactly when the session's user is
  authenticated and has id 1. In every other case the answer is status 403 and the
  state is the one before the request. The bodies themselves never answer 403, so the
  status tells the two cases apart.
\<close>

theorem admin_only_handlers:
  "(if session_admin st
    then add_new_post env req st = add_new_post_body env req st
       \<and> edit_post env req pid st = edit_post_body env req pid st
       \<and> delete_post pid st = delete_post_body pid st
       \<and> delete_all_comments pid st = delete_all_comments_body pid st
    else add_new_post env req st = (Inl (HTTPException 403), st)
       \<and> edit_post env req pid st = (Inl (HTTPException 403), st)
       \<and> delete_post pid st = (Inl (HTTPException 403), st)
       \<and> delete_all_comments pid st = (Inl (HTTPException 403), st))
   \<and> (fst (add_new_post env req st) = Inl (HTTPException 403)) = (\<not> session_admin st)
   \<and> (fst (edit_post env req pid st) = Inl (HTTPException 403)) = (\<not> session_admin st)
   \<and> (fst (delete_post pid st) = Inl (HTTPException 403)) = (\<not> session_admin st)
   \<and> (fst (delete_all_comments pid st) = Inl (HTTPException 403)) = (\<not> session_admin st)"
  using add_new_post_body_not_403 [of env req st] edit_post_body_not_403 [of env req pid st]
    delete_all_comments_body_not_403 [of pid st] delete_post_body_not_403 [of st pid]
  by (simp add: add_new_post_def edit_post_def delete_post_def delete_all_comments_def admin_only_eq)

text \<open>
  In the small blog: Bob and an anonymous client are refused and nothing changes; for
  the administrator the handlers are their bodies.
\<close>

theorem admin_only_handlers_witness:
  "delete_post 1 (blog (Some 2)) = (Inl (HTTPException 403), blog (Some 2))
   \<and> edit_post (clock noon) get_request 1 (blog None) = (Inl (HTTPException 403), blog None)
   \<and> delete_all_comments 1 (blog (Some 1)) = delete_all_comments_body 1 (blog (Some 1))
   \<and> fst (add_new_post (clock noon) get_request (blog (Some 1))) \<noteq> Inl (HTTPException 403)"
proof -
  have "delete_post 1 (blog (Some 2)) = (Inl (HTTPException 403), blog (Some 2))"
    using admin_only_handlers [of "blog (Some 2)" "clock noon" get_request 1]
    by (simp add: session_admin_blog)
  moreover
  have "edit_post (clock noon) get_request 1 (blog None) = (Inl (HTTPException 403), blog None)"
    using admin_only_handlers [of "blog None" "clock noon" get_request 1]
    by (simp add: session_admin_blog)
  moreover
  have "delete_all_comments 1 (blog (Some 1)) = delete_all_comments_body 1 (blog (Some 1))"
    using admin_only_handlers [of "blog (Some 1)" "clock noon" get_request 1]
    by (simp add: session_admin_blog)
  moreover
  have "(fst (add_new_post (clock noon) get_request (blog (Some 1))) = Inl (HTTPException 403))
        = (\<not> session_admin (blog (Some 1)))"
    using admin_only_handlers [of "blog (Some 1)" "clock noon" get_request 1] by blast
  then have "fst (add_new_post (clock noon) get_request (blog (Some 1))) \<noteq> Inl (HTTPException 403)"
    by (simp add: session_admin_blog)
  ultimately show ?thesis by blast
qed

section \<open>Deleting a post\<close>

text \<open>
  Claim C5. When the administrator deletes an existing post, every comment whose
  \<^verbatim>\<open>post_id\<close> is that post's id is deleted, each deletion followed by its own commit;
  then the post is deleted and committed; the answer is a redirect to the home page.
  The comments of other posts, the users, the session and the flashed messages are
  as before. The journal gives the order of the deletions and the commits.
\<close>

theorem delete_post_cascade:
  assumes admin: "session_admin st"
    and keys: "primary_keys st"
    and post: "query_get post_id (blog_posts st) pid = Some p"
  shows "delete_post pid st =
           (Inr (Redirect (Url_for ''get_all_posts'' [])),
            st\<lparr>comments := filter (\<lambda>c. comment_post_id c \<noteq> Some pid) (comments st),
               blog_posts := filter (\<lambda>q. post_id q \<noteq> pid) (blog_posts st),
               journal := journal st
                 @ concat (map (\<lambda>c. [Delete_comment (comment_id c), Commit])
                     (filter (\<lambda>c. comment_post_id c = Some pid) (comments st)))
                 @ [Delete_post pid, Commit]\<rparr>)"
proof -
  let ?cs = "filter_by_post_id (comments st) pid"
  let ?st1 = "delete_each ?cs st"
  have pid: "post_id p = pid" using post by (simp add: query_get_Some)
  have "delete_post pid st =
      (Inr (Redirect (Url_for ''get_all_posts'' [])), commit (session_delete_post p ?st1))"
    using admin post
    by (simp add: delete_post_def admin_only_eq delete_post_body_def delete_all_comments_admin
        delete_each_rest)
  moreover have "commit (session_delete_post p ?st1) =
      st\<lparr>comments := filter (\<lambda>c. comment_post_id c \<noteq> Some pid) (comments st),
         blog_posts := filter (\<lambda>q. post_id q \<noteq> pid) (blog_posts st),
         journal := journal st
           @ concat (map (\<lambda>c. [Delete_comment (comment_id c), Commit])
               (filter (\<lambda>c. comment_post_id c = Some pid) (comments st)))
           @ [Delete_post pid, Commit]\<rparr>"
    using keys filter_other_posts[of "comments st" pid]
    by (intro state.equality)
       (simp_all add: commit_def session_delete_post_def delete_each_eq pid primary_keys_def
          filter_by_post_id_def)
  ultimately show ?thesis by simp
qed

text \<open>
  In the small blog the administrator deletes the first post: Bob's and Carol's
  comments on it go first, one commit each, and Carol's comment on the second post stays.
\<close>

theorem delete_post_cascade_witness:
  "delete_post 1 (blog (Some 1)) =
     (Inr (Redirect (Url_for ''get_all_posts'' [])),
      (blog (Some 1))\<lparr>comments := [carol_on_second], blog_posts := [second_post],
         journal := [Delete_comment 1, Commit, Delete_comment 3, Commit,
                     Delete_post 1, Commit]\<rparr>)"
proof -
  have a: "session_admin (blog (Some 1))" by (simp add: session_admin_blog)
  have p: "query_get post_id (blog_posts (blog (Some 1))) 1 = Some first_post"
    by (simp add: query_get_def blog_defs)
  show ?thesis
    using delete_post_cascade [OF a primary_keys_blog p]
    by (simp add: blog_defs)
qed

section \<open>Deleting one comment\<close>

lemma delete_comment_authenticated:
  "is_authenticated st \<Longrightarrow> delete_comment pid cid st = delete_comment_body pid cid st"
  by (simp add: delete_comment_def login_required_def)

lemma comments_blog: "comments (blog s) = [bob_on_first, carol_on_second, carol_on_first]"
  by (simp add: blog_def)

text \<open>
  Claim C2. For any authenticated user and any existing comment,
  \<^verbatim>\<open>delete_comment\<close> deletes the comment, commits, and redirects to the page of the
  post named in the request. Nothing is asked of the user beyond being authenticated:
  neither the user's id nor the comment's author occurs in the hypotheses.
\<close>

theorem delete_comment_any_user:
  assumes auth: "current_user st = Some u"
    and c: "query_get comment_id (comments st) cid = Some c"
  shows "delete_comment pid cid st =
           (Inr (Redirect (Url_for ''show_post'' [(''post_id'', pid)])),
            st\<lparr>comments := filter (\<lambda>d. comment_id d \<noteq> cid) (comments st),
               journal := journal st @ [Delete_comment cid, Commit]\<rparr>)
         \<and> c \<in> set (comments st)
         \<and> c \<notin> set (comments (snd (delete_comment pid cid st)))"
proof -
  have a: "is_authenticated st" using auth by (simp add: is_authenticated_def)
  have k: "c \<in> set (comments st)" "comment_id c = cid" using c by (simp_all add: query_get_Some)
  have "delete_comment pid cid st =
           (Inr (Redirect (Url_for ''show_post'' [(''post_id'', pid)])),
            st\<lparr>comments := filter (\<lambda>d. comment_id d \<noteq> cid) (comments st),
               journal := journal st @ [Delete_comment cid, Commit]\<rparr>)"
    using c k by (simp add: delete_comment_authenticated[OF a] delete_comment_body_def
        commit_def session_delete_comment_def)
  with k show ?thesis by simp
qed

text \<open>Carol, who is not the administrator, deletes a comment that Bob wrote.\<close>

theorem delete_comment_any_user_witness:
  "current_user (blog (Some 3)) = Some carol
   \<and> comment_author_id bob_on_first = Some 2 \<and> user_id carol = 3
   \<and> delete_comment 1 1 (blog (Some 3)) =
       (Inr (Redirect (Url_for ''show_post'' [(''post_id'', 1)])),
        (blog (Some 3))\<lparr>comments := [carol_on_second, carol_on_first],
           journal := [Delete_comment 1, Commit]\<rparr>)"
proof -
  have u: "current_user (blog (Some 3)) = Some carol"
    by (simp add: current_user_def load_user_def query_get_def blog_defs)
  have c: "query_get comment_id (comments (blog (Some 3))) 1 = Some bob_on_first"
    by (simp add: query_get_def blog_defs)
  have f: "filter (\<lambda>d. comment_id d \<noteq> 1) (comments (blog (Some 3)))
           = [carol_on_second, carol_on_first]"
    by (simp add: blog_defs)
  have j: "journal (blog (Some 3)) = []" by (simp add: blog_def)
  show ?thesis
    using delete_comment_any_user [OF u c, of 1] u
    by (simp add: f j bob_on_first_def carol_def)
qed

text \<open>
  Claim C9. The state after \<^verbatim>\<open>delete_comment\<close> is the same whatever post id the
  request names: the comment deleted is the one with the requested comment id, to
  whichever post it belongs. The post id is only the target of the redirect.
\<close>

theorem delete_comment_ignores_post_id:
  "snd (delete_comment pid cid st) = snd (delete_comment pid' cid st)
   \<and> (is_authenticated st \<and> query_get comment_id (comments st) cid = Some c
        \<longrightarrow> fst (delete_comment pid cid st)
              = Inr (Redirect (Url_for ''show_post'' [(''post_id'', pid)]))
          \<and> comments (snd (delete_comment pid cid st))
              = filter (\<lambda>d. comment_id d \<noteq> comment_id c) (comments st))"
  by (auto simp: delete_comment_def login_required_def delete_comment_body_def abort_def
      commit_def session_delete_comment_def dest: query_get_Some split: option.splits)

text \<open>Bob asks for comment 2 under post 1; comment 2 belongs to post 2 and is deleted.\<close>

theorem delete_comment_ignores_post_id_witness:
  "comment_post_id carol_on_second = Some 2
   \<and> fst (delete_comment 1 2 (blog (Some 2)))
        = Inr (Redirect (Url_for ''show_post'' [(''post_id'', 1)]))
   \<and> comments (snd (delete_comment 1 2 (blog (Some 2)))) = [bob_on_first, carol_on_first]
   \<and> snd (delete_comment 1 2 (blog (Some 2))) = snd (delete_comment 2 2 (blog (Some 2)))"
proof -
  have a: "is_authenticated (blog (Some 2))" by (simp add: is_authenticated_blog)
  have c: "query_get comment_id (comments (blog (Some 2))) 2 = Some carol_on_second"
    by (simp add: query_get_def blog_defs)
  have f: "filter (\<lambda>d. comment_id d \<noteq> comment_id carol_on_second) (comments (blog (Some 2)))
           = [bob_on_first, carol_on_first]"
    by (simp add: blog_defs)
  have q: "comment_post_id carol_on_second = Some 2" by (simp add: carol_on_second_def)
  from delete_comment_ignores_post_id [of 1 2 "blog (Some 2)" 2 carol_on_second] a c
  have "snd (delete_comment 1 2 (blog (Some 2))) = snd (delete_comment 2 2 (blog (Some 2)))
      \<and> fst (delete_comment 1 2 (blog (Some 2)))
          = Inr (Redirect (Url_for ''show_post'' [(''post_id'', 1)]))
      \<and> comments (snd (delete_comment 1 2 (blog (Some 2))))
          = filter (\<lambda>d. comment_id d \<noteq> comment_id carol_on_second) (comments (blog (Some 2)))"
    by blast
  with f q show ?thesis by metis
qed

section \<open>Ids without a row\<close>

text \<open>
  Claim C8. For an id with no row, the bodies of \<^verbatim>\<open>edit_post\<close> and
  \<^verbatim>\<open>delete_comment\<close> end in an exception that nothing catches, and so do the routes
  \<^verbatim>\<open>edit_post\<close>, \<^verbatim>\<open>delete_post\<close> and \<^verbatim>\<open>delete_comment\<close> once their
  decorator lets the request through. The answer is no 404 and no message is flashed.
\<close>

theorem missing_id_faults:
  assumes "query_get post_id (blog_posts st) pid = None"
    and "query_get comment_id (comments st) cid = None"
  shows "edit_post_body env req pid st = (Inl AttributeError, st)
       \<and> delete_comment_body pid' cid st = (Inl UnmappedInstanceError, st)
       \<and> (session_admin st \<longrightarrow>
            edit_post env req pid st = (Inl AttributeError, st)
          \<and> fst (delete_post pid st) = Inl UnmappedInstanceError
          \<and> flashes (snd (delete_post pid st)) = flashes st)
       \<and> (is_authenticated st \<longrightarrow>
            delete_comment pid' cid st = (Inl UnmappedInstanceError, st))
       \<and> unhandled_fault AttributeError \<and> unhandled_fault UnmappedInstanceError"
  using assms
  by (simp add: edit_post_body_def delete_comment_body_def edit_post_def delete_post_def
      admin_only_eq delete_post_body_def delete_all_comments_admin delete_each_rest
      delete_comment_authenticated)

text \<open>Post 7 and comment 9 do not exist in the small blog.\<close>

theorem missing_id_faults_witness:
  "edit_post (clock noon) get_request 7 (blog (Some 1)) = (Inl AttributeError, blog (Some 1))
   \<and> fst (delete_post 7 (blog (Some 1))) = Inl UnmappedInstanceError
   \<and> delete_comment 1 9 (blog (Some 2)) = (Inl UnmappedInstanceError, blog (Some 2))"
proof -
  have p: "query_get post_id (blog_posts (blog s)) 7 = None" for s
    by (simp add: query_get_def blog_defs)
  have c: "query_get comment_id (comments (blog s)) 9 = None" for s
    by (simp add: query_get_def blog_defs)
  have "edit_post (clock noon) get_request 7 (blog (Some 1)) = (Inl AttributeError, blog (Some 1))
      \<and> fst (delete_post 7 (blog (Some 1))) = Inl UnmappedInstanceError"
    using missing_id_faults [OF p [of "Some 1"] c [of "Some 1"], of "clock noon" get_request 1]
    by (simp add: session_admin_blog)
  moreover
  have "delete_comment 1 9 (blog (Some 2)) = (Inl UnmappedInstanceError, blog (Some 2))"
    using missing_id_faults [OF p [of "Some 2"] c [of "Some 2"], of "clock noon" get_request 1]
    by (simp add: is_authenticated_blog)
  ultimately show ?thesis by blast
qed

section \<open>Required fields\<close>

lemma strip_Nil_iff: "strip s = [] \<longleftrightarrow> (\<forall>c\<in>set s. isspace c)"
proof
  assume "strip s = []"
  then have all: "\<forall>c\<in>set (dropWhile isspace s). isspace c"
    by (simp add: strip_def dropWhile_eq_Nil_conv)
  have "dropWhile isspace s = []"
  proof (rule ccontr)
    assume n: "dropWhile isspace s \<noteq> []"
    then have "\<not> isspace (hd (dropWhile isspace s))" by (rule hd_dropWhile)
    moreover from n have "hd (dropWhile isspace s) \<in> set (dropWhile isspace s)" by simp
    ultimately show False using all by blast
  qed
  then show "\<forall>c\<in>set s. isspace c" by (simp add: dropWhile_eq_Nil_conv)
next
  assume "\<forall>c\<in>set s. isspace c"
  then show "strip s = []" by (auto simp: strip_def dest: set_dropWhileD)
qed

lemma DataRequired_iff: "DataRequired s \<longleftrightarrow> (\<exists>c\<in>set s. \<not> isspace c)"
  by (auto simp: DataRequired_def strip_Nil_iff)

lemma DataRequired_Nil: "\<not> DataRequired []"
  by (simp add: DataRequired_iff)


section \<open>Registration\<close>







lemma csrf_ok_clock:
  "form req ''csrf_token'' = Some ''token'' \<Longrightarrow> csrf_ok (clock t) req"
  by (simp add: csrf_ok_def clock_def)










section \<open>Ordering by a string column\<close>

lemma mset_insert_desc: "mset (insert_desc key x xs) = add_mset x (mset xs)"
  by (induction xs) simp_all

lemma mset_order_by_desc: "mset (order_by_desc key xs) = mset xs"
  by (induction xs) (simp_all add: mset_insert_desc)

lemma set_insert_desc: "set (insert_desc key x xs) = insert x (set xs)"
  by (induction xs) auto

lemma sorted_insert_desc:
  "sorted_wrt (\<lambda>a b. key b \<le> key a) xs \<Longrightarrow> sorted_wrt (\<lambda>a b. key b \<le> key a) (insert_desc key x xs)"
  by (induction xs) (auto simp: set_insert_desc)

lemma sorted_order_by_desc: "sorted_wrt (\<lambda>a b. key b \<le> key a) (order_by_desc key xs)"
  by (induction xs) (simp_all add: sorted_insert_desc)

lemma length_order_by_desc: "length (order_by_desc key xs) = length xs"
  using mset_order_by_desc [of key xs] by (metis size_mset)

lemma insert_desc_map:
  "insert_desc key (f x) (map f xs) = map f (insert_desc (\<lambda>y. key (f y)) x xs)"
  by (induction xs) simp_all

lemma order_by_desc_map:
  "order_by_desc key (map f xs) = map f (order_by_desc (\<lambda>y. key (f y)) xs)"
  by (induction xs) (simp_all add: insert_desc_map)

section \<open>The home page\<close>

text \<open>
  For every state and every page that exists, \<^verbatim>\<open>get_all_posts\<close> lists five posts
  of the table sorted by the date column, greatest string first, starting after the
  pages before; a request without a page number is a request for page 1.
\<close>

lemma get_all_posts_default:
  "get_all_posts (req\<lparr>page_arg := None\<rparr>) st = get_all_posts (req\<lparr>page_arg := Some 1\<rparr>) st"
  by (simp add: get_all_posts_def)

lemma get_all_posts_page:
  assumes "1 \<le> n" and "n = 1 \<or> 5 * (n - 1) < int (length (blog_posts st))"
  shows "get_all_posts (req\<lparr>page_arg := Some n\<rparr>) st =
    (Inr (Render ''index.html'' [(''all_posts'', All_posts
       \<lparr>items = take 5 (drop (nat ((n - 1) * 5)) (order_by_desc post_date (blog_posts st))),
        page = n, per_page = 5, total = length (blog_posts st)\<rparr>)]), st)"
proof -
  have "n = 1" if "length (blog_posts st) \<le> nat ((n - 1) * 5)"
    using that assms by (cases "n = 1") (auto simp: le_nat_iff)
  with assms(1) show ?thesis
    by (auto simp: get_all_posts_def paginate_def Let_def length_order_by_desc)
qed

lemma get_all_posts_twelve:
  assumes "length (blog_posts st) = 12"
  shows "length (listed_ids (get_all_posts (req\<lparr>page_arg := Some 1\<rparr>) st)) = 5"
    and "length (listed_ids (get_all_posts (req\<lparr>page_arg := Some 3\<rparr>) st)) = 2"
  using assms get_all_posts_page [of 1 st req] get_all_posts_page [of 3 st req]
  by (simp_all add: length_order_by_desc)


text \<open>
  The date of a post is the text of the clock at the moment the administrator's
  submission is stored; the post is put after the posts already there.
\<close>

lemma add_new_post_date:
  assumes "session_admin st"
    and "validate_on_submit env req (validate_create_post env (CreatePostForm req [] [] [] []))"
    and "data_of (CreatePostForm req [] [] [] []) ''title'' \<notin> set (map title (blog_posts st))"
  shows "\<exists>p. blog_posts (snd (add_new_post env req st)) = blog_posts st @ [p]
           \<and> post_date p = strftime (now env)
           \<and> post_id p = next_id (map post_id (blog_posts st))"
  using assms
  by (auto simp: add_new_post_def admin_only_eq add_new_post_body_def Let_def session_admin_def
      is_authenticated_def commit_def session_add_post_def split: option.splits)

subsection \<open>The twelve posts\<close>

lemma dates12: "map (\<lambda>k. strftime (nth_day k)) twelve_days =
  [''22:00PM 01 January, 2021'', ''21:00PM 02 January, 2021'',
   ''20:00PM 03 January, 2021'', ''19:00PM 04 January, 2021'',
   ''18:00PM 05 January, 2021'', ''17:00PM 06 January, 2021'',
   ''16:00PM 07 January, 2021'', ''15:00PM 08 January, 2021'',
   ''14:00PM 09 January, 2021'', ''13:00PM 10 January, 2021'',
   ''12:00PM 11 January, 2021'', ''11:00AM 12 January, 2021'']"
  by code_simp

lemma date_of_day:
  "strftime (nth_day 1) = ''22:00PM 01 January, 2021''"
  "strftime (nth_day 2) = ''21:00PM 02 January, 2021''"
  "strftime (nth_day 3) = ''20:00PM 03 January, 2021''"
  "strftime (nth_day 4) = ''19:00PM 04 January, 2021''"
  "strftime (nth_day 5) = ''18:00PM 05 January, 2021''"
  "strftime (nth_day 6) = ''17:00PM 06 January, 2021''"
  "strftime (nth_day 7) = ''16:00PM 07 January, 2021''"
  "strftime (nth_day 8) = ''15:00PM 08 January, 2021''"
  "strftime (nth_day 9) = ''14:00PM 09 January, 2021''"
  "strftime (nth_day 10) = ''13:00PM 10 January, 2021''"
  "strftime (nth_day 11) = ''12:00PM 11 January, 2021''"
  "strftime (nth_day 12) = ''11:00AM 12 January, 2021''"
  using dates12 by (simp_all add: twelve_days_def)

lemma ordered12:
  "order_by_desc post_date (blog_posts twelve_posts) = map day_post twelve_days"
proof -
  have "order_by_desc (\<lambda>k. strftime (nth_day k)) twelve_days = twelve_days"
    by (simp add: twelve_days_def date_of_day date_of_day(1) [unfolded One_nat_def])
  moreover have "(\<lambda>k. post_date (day_post k)) = (\<lambda>k. strftime (nth_day k))"
    by (simp add: day_post_def)
  ultimately show ?thesis by (simp add: twelve_posts_def order_by_desc_map)
qed

lemma chronological12: "sorted_wrt earlier (map nth_day twelve_days)"
  by (simp add: twelve_days_def earlier_def minutes_of_def nth_day_def)

text \<open>
  Claim C3. The posts are ordered by the date column, five to a page, and the page
  is the first unless the request names another; of twelve posts the third page holds
  two. But the date column holds the text that \<^verbatim>\<open>strftime("%H:%M%p %d %B, %Y")\<close>
  writes, which begins with the hour, and the order is the order of that text. With
  the twelve posts of the twelve days (written in the order of their ids, each at a
  later moment than the one before), the first page lists posts 1 to 5, the five
  oldest, and the third page lists posts 11 and 12, the two most recent.
\<close>

theorem oldest_posts_first:
  "sorted_wrt earlier (map nth_day twelve_days)
   \<and> map post_id (blog_posts twelve_posts) = [1, 2, 3, 4, 5, 6, 7, 8, 9, 10, 11, 12]
   \<and> map post_date (blog_posts twelve_posts) = map (\<lambda>k. strftime (nth_day k)) twelve_days
   \<and> listed_ids (get_all_posts get_request twelve_posts) = [1, 2, 3, 4, 5]
   \<and> listed_ids (get_all_posts (page_request 3) twelve_posts) = [11, 12]"
proof -
  have ids: "map post_id (blog_posts twelve_posts) = [1, 2, 3, 4, 5, 6, 7, 8, 9, 10, 11, 12]"
    by (simp add: twelve_posts_def twelve_days_def day_post_def)
  have ds: "map post_date (blog_posts twelve_posts) = map (\<lambda>k. strftime (nth_day k)) twelve_days"
    by (simp add: twelve_posts_def day_post_def)
  have p1: "listed_ids (get_all_posts get_request twelve_posts) = [1, 2, 3, 4, 5]"
    by (simp add: get_all_posts_def get_request_def paginate_def ordered12 Let_def
        twelve_days_def) (simp add: day_post_def)
  have p3: "listed_ids (get_all_posts (page_request 3) twelve_posts) = [11, 12]"
    by (simp add: get_all_posts_def page_request_def paginate_def ordered12 Let_def
        twelve_days_def) (simp add: day_post_def)
  from chronological12 ids ds p1 p3 show ?thesis by blast
qed

section \<open>The post page\<close>

lemma show_post_get:
  "\<not> is_submitted req \<Longrightarrow> show_post env req pid st =
     (Inr (post_page (requested_post st pid) (CommentForm req) (current_user st)), st)"
  by (simp add: show_post_def show_post_run_def validate_on_submit_def Let_def)

text \<open>
  Whatever the request and whichever branch answers it, the handler has looked up the
  post with the requested id and has loaded the whole comment table, the comments of
  every post, greatest date string first.
\<close>

lemma show_post_run_loads:
  "snd (show_post_run env req pid st) =
     \<lparr>post_row = query_get post_id (blog_posts st) pid,
      comment_rows = order_by_desc comment_date (comments st)\<rparr>"
  by (simp add: show_post_run_def Let_def requested_post_def loaded_comments_def
      split: option.splits)

lemma show_post_loads_whole_table:
  "mset (comment_rows (snd (show_post_run env req pid st))) = mset (comments st)"
  "sorted_wrt (\<lambda>a b. comment_date b \<le> comment_date a)
     (comment_rows (snd (show_post_run env req pid st)))"
  "comment_rows (snd (show_post_run env req pid st))
     = comment_rows (snd (show_post_run env' req' pid' st))"
  by (simp_all add: show_post_run_loads mset_order_by_desc sorted_order_by_desc)

lemma comment_dates:
  "comment_date bob_on_first = strftime (january 1 11)"
  "comment_date carol_on_second = strftime (january 2 12)"
  "comment_date carol_on_first = strftime (january 3 8)"
  by (simp_all add: blog_defs) code_simp+

text \<open>
  Claim C6. \<^verbatim>\<open>show_post\<close> looks up the one post with the requested id and loads
  every comment of the table, whatever post was requested. The order of the loaded
  comments is the order of their date strings, not of their dates: a request for the
  first post of the small blog loads Carol's comment on the second post as well, and
  the comment written last, on 3 January, is the last of the list.
\<close>

theorem newest_comment_loaded_last:
  "comment_date bob_on_first = strftime (january 1 11)
   \<and> comment_date carol_on_second = strftime (january 2 12)
   \<and> comment_date carol_on_first = strftime (january 3 8)
   \<and> earlier (january 1 11) (january 2 12) \<and> earlier (january 2 12) (january 3 8)
   \<and> comment_post_id carol_on_second = Some 2
   \<and> show_post_run (clock noon) get_request 1 (blog None) =
        ((Inr (post_page (Some first_post) [(''comment_field'', [])] None), blog None),
         \<lparr>post_row = Some first_post,
          comment_rows = [carol_on_second, bob_on_first, carol_on_first]\<rparr>)"
proof -
  have e: "earlier (january 1 11) (january 2 12)" "earlier (january 2 12) (january 3 8)"
    by (simp_all add: earlier_def minutes_of_def january_def)
  have g: "\<not> is_submitted get_request" by (simp add: is_submitted_def get_request_def)
  have f: "CommentForm get_request = [(''comment_field'', [])]"
    by (simp add: CommentForm_def field_data_def is_submitted_def get_request_def)
  have u: "current_user (blog None) = None" by (simp add: current_user_def blog_def)
  have r: "requested_post (blog None) 1 = Some first_post"
    by (simp add: requested_post_def query_get_def blog_defs)
  have 1: "fst (show_post_run (clock noon) get_request 1 (blog None)) =
      (Inr (post_page (Some first_post) [(''comment_field'', [])] None), blog None)"
    using show_post_get [OF g, of "clock noon" 1 "blog None"] by (simp add: show_post_def f u r)
  have 2: "snd (show_post_run (clock noon) get_request 1 (blog None)) =
      \<lparr>post_row = Some first_post,
       comment_rows = [carol_on_second, bob_on_first, carol_on_first]\<rparr>"
    unfolding show_post_run_loads by (simp add: query_get_def blog_defs)
  have 3: "comment_post_id carol_on_second = Some 2" by (simp add: carol_on_second_def)
  from 1 2 have "show_post_run (clock noon) get_request 1 (blog None) =
        ((Inr (post_page (Some first_post) [(''comment_field'', [])] None), blog None),
         \<lparr>post_row = Some first_post,
          comment_rows = [carol_on_second, bob_on_first, carol_on_first]\<rparr>)"
    by (simp add: prod_eq_iff)
  with comment_dates e 3 show ?thesis by blast
qed


section \<open>Comments of an anonymous client\<close>

lemma comment_field_valid:
  "is_submitted req \<Longrightarrow> form req ''comment_field'' = Some t \<Longrightarrow>
     validate_comment (CommentForm req) = DataRequired t"
  by (simp add: validate_comment_def CommentForm_def data_of_def field_data_def)

lemma show_post_invalid:
  "\<not> validate_on_submit env req (validate_comment (CommentForm req)) \<Longrightarrow>
     show_post env req pid st =
       (Inr (post_page (requested_post st pid) (CommentForm req) (current_user st)), st)"
  by (simp add: show_post_def show_post_run_def Let_def)

lemma show_post_anonymous:
  "validate_on_submit env req (validate_comment (CommentForm req)) \<Longrightarrow>
   current_user st = None \<Longrightarrow>
     show_post env req pid st =
       (Inr (Redirect (Url_for ''login'' [])),
        st\<lparr>flashes := flashes st @ [''Please login or register to post comments.'']\<rparr>)"
  by (simp add: show_post_def show_post_run_def Let_def flash_def)




text \<open>
  Claim C10. Validation comes before the authentication check: an unauthenticated
  submission with an empty comment fails validation and gets the post page again, the
  state unchanged (no message is flashed); for an unauthenticated client the answer is
  the redirect to the login page exactly when \<^verbatim>\<open>validate_on_submit\<close> holds of the
  request: it is a submission, its token is good and its text passes.
\<close>

theorem empty_comment_rerendered:
  assumes "is_submitted req" and "field_data req ''comment_field'' [] = []"
    and "\<not> is_authenticated st"
  shows "\<not> validate_comment (CommentForm req)
       \<and> show_post env req pid st =
           (Inr (post_page (requested_post st pid) [(''comment_field'', [])] None), st)
       \<and> ((fst (show_post env req' pid st) = Inr (Redirect (Url_for ''login'' [])))
            = validate_on_submit env req' (validate_comment (CommentForm req')))"
proof -
  have u: "current_user st = None" using assms(3) by (simp add: is_authenticated_def)
  have v: "\<not> validate_comment (CommentForm req)"
    using assms(2) by (simp add: validate_comment_def CommentForm_def data_of_def DataRequired_Nil)
  have c: "CommentForm req = [(''comment_field'', [])]"
    using assms(2) by (simp add: CommentForm_def)
  have 1: "show_post env req pid st =
           (Inr (post_page (requested_post st pid) [(''comment_field'', [])] None), st)"
    using v show_post_invalid [of env req pid st] by (simp add: validate_on_submit_def u c)
  have 2: "(fst (show_post env req' pid st) = Inr (Redirect (Url_for ''login'' [])))
            = validate_on_submit env req' (validate_comment (CommentForm req'))"
  proof (cases "validate_on_submit env req' (validate_comment (CommentForm req'))")
    case True
    then show ?thesis by (simp add: show_post_anonymous [OF True u])
  next
    case False
    then show ?thesis by (simp add: show_post_invalid post_page_def)
  qed
  from v 1 2 show ?thesis by blast
qed

text \<open>The empty comment is rendered again; \<open>hello\<close> is redirected.\<close>

theorem empty_comment_rerendered_witness:
  "show_post (clock noon) empty_comment 1 (blog None) =
     (Inr (post_page (Some first_post) [(''comment_field'', [])] None), blog None)
   \<and> fst (show_post (clock noon) hello_comment 1 (blog None)) = Inr (Redirect (Url_for ''login'' []))"
proof -
  have s: "is_submitted empty_comment" and f: "field_data empty_comment ''comment_field'' [] = []"
    by (simp_all add: empty_comment_def post_request_def is_submitted_def field_data_def)
  have a: "\<not> is_authenticated (blog None)" by (simp add: is_authenticated_blog)
  have r: "requested_post (blog None) 1 = Some first_post"
    by (simp add: requested_post_def query_get_def blog_defs)
  have hs: "is_submitted hello_comment" and hf: "form hello_comment ''comment_field'' = Some ''hello''"
    and hk: "form hello_comment ''csrf_token'' = Some ''token''"
    by (simp_all add: hello_comment_def post_request_def is_submitted_def)
  have "validate_comment (CommentForm hello_comment)"
    by (simp add: comment_field_valid [OF hs hf] DataRequired_iff isspace_def)
  with hs csrf_ok_clock [OF hk, of noon]
  have hv: "validate_on_submit (clock noon) hello_comment (validate_comment (CommentForm hello_comment))"
    by (simp add: validate_on_submit_def)
  note t = empty_comment_rerendered [OF s f a, of "clock noon" 1 hello_comment]
  from t have 1: "show_post (clock noon) empty_comment 1 (blog None) =
     (Inr (post_page (requested_post (blog None) 1) [(''comment_field'', [])] None), blog None)"
    by blast
  from t hv have 2: "fst (show_post (clock noon) hello_comment 1 (blog None))
     = Inr (Redirect (Url_for ''login'' []))" by blast
  show ?thesis using 1 2 by (simp add: r)
qed

end
